theory Spec2Isabelle
  imports Main
begin

section \<open>Python values, exceptions and outcomes\<close>

text \<open>
  The module \<open>clj.py\<close> reads and writes Clojure literals. Text that is read is a
  \<open>string\<close>: the embedding covers input streams whose characters are code points
  below 256, where \<open>str.isdigit\<close> is known exactly. A Python \<open>str\<close> that is a
  decoded value is a list of code points (\<open>pystr\<close>), since an escape sequence may
  denote any code point.
\<close>

type_synonym pystr = "nat list"

definition ustr :: "string \<Rightarrow> pystr" where
  "ustr s = map of_char s"

definition BACKSLASH :: char where
  "BACKSLASH = CHR 0x5C"

definition DQUOTE :: char where
  "DQUOTE = CHR 0x22"

definition NEWLINE :: char where
  "NEWLINE = CHR 0x0A"

text \<open>
  The values the decoder returns. Results of library constructors are kept as
  uninterpreted applications: \<open>VFloat s\<close> is \<open>float(s)\<close>, \<open>VDecimal s\<close> is
  \<open>decimal.Decimal(s)\<close>, \<open>VSet xs\<close> is \<open>set(xs)\<close> (members in insertion order,
  which of them coincide is decided by Python equality), \<open>VDict kvs\<close> is the
  \<open>dict\<close> obtained by storing the pairs \<open>kvs\<close> in this order, and
  \<open>VFmt ns v\<close> is the \<open>str\<close> \<open>"%s/%s" % (ns, v)\<close> for a \<open>v\<close> whose \<open>str()\<close>
  is not computed here. Python's \<open>None\<close> is \<open>VNone\<close>.
\<close>

datatype "value" =
    VNone
  | VBool bool
  | VInt int
  | VFloat string
  | VDecimal string
  | VStr pystr
  | VFmt pystr "value"
  | VList "value list"
  | VTuple "value list"
  | VSet "value list"
  | VDict "(value \<times> value) list"

text \<open>
  The exceptions of the module and of the library calls it makes. The first six
  are the \<open>ValueError\<close>s raised by \<open>clj.py\<close> itself, with the arguments of
  their message formats; \<open>NegativeSeek\<close> and \<open>FloatSyntax\<close> are the \<open>ValueError\<close>s
  of \<open>StringIO.seek\<close> and \<open>float()\<close>, and \<open>UnicodeDecodeError\<close> is a subclass of
  \<open>ValueError\<close>.
\<close>

datatype pyexc =
    UnexpectedEOF
  | ExpectTrue string nat nat
  | ExpectNil string nat nat
  | UnexpectedChar string nat nat
  | StrExpected "value"
  | CircularReference
  | NegativeSeek
  | FloatSyntax string
  | InvalidOperation
  | IndexError
  | TypeError
  | UnicodeDecodeError

text \<open>
  A call returns, raises, or reaches a library call whose result is not part of
  this embedding (\<open>External\<close>: \<open>pyrfc3339.parse\<close>, \<open>uuid.UUID\<close>, the Unicode name
  table). A call that does not return at all is the value \<open>None\<close> of the partial
  functions below. The recursion limit and the memory of the interpreter are not
  part of the embedding.
\<close>

datatype 'a outcome = Returns 'a | Raises pyexc | External

definition obind :: "'a outcome \<Rightarrow> ('a \<Rightarrow> 'b outcome) \<Rightarrow> 'b outcome" where
  "obind m f = (case m of Returns x \<Rightarrow> f x | Raises e \<Rightarrow> Raises e | External \<Rightarrow> External)"

text \<open>The line and column a \<open>ValueError\<close> message of the decoder carries, if any.\<close>

fun err_position :: "pyexc \<Rightarrow> (nat \<times> nat) option" where
  "err_position (ExpectTrue s l c) = Some (l, c)"
| "err_position (ExpectNil s l c) = Some (l, c)"
| "err_position (UnexpectedChar s l c) = Some (l, c)"
| "err_position e = None"

fun is_ValueError :: "pyexc \<Rightarrow> bool" where
  "is_ValueError InvalidOperation = False"
| "is_ValueError IndexError = False"
| "is_ValueError TypeError = False"
| "is_ValueError e = True"

section \<open>Library functions\<close>

subsection \<open>\<open>str.isdigit\<close>, \<open>int()\<close>, \<open>str(int)\<close>, \<open>float()\<close>, \<open>Decimal()\<close>\<close>

definition ascii_digit :: "char \<Rightarrow> bool" where
  "ascii_digit ch = (48 \<le> (of_char ch :: nat) \<and> (of_char ch :: nat) \<le> 57)"

text \<open>Below code point 256 the digits of \<open>str.isdigit\<close> are 0-9 and the superscripts 1, 2, 3.\<close>

definition char_isdigit :: "char \<Rightarrow> bool" where
  "char_isdigit ch = (ascii_digit ch \<or> ch = CHR 0xB2 \<or> ch = CHR 0xB3 \<or> ch = CHR 0xB9)"

definition isdigit :: "string \<Rightarrow> bool" where
  "isdigit s = (s \<noteq> [] \<and> list_all char_isdigit s)"

definition digit_val :: "char \<Rightarrow> nat" where
  "digit_val ch = of_char ch - 48"

definition digits_val :: "string \<Rightarrow> nat" where
  "digits_val s = foldl (\<lambda>a ch. 10 * a + digit_val ch) 0 s"

definition all_digits :: "string \<Rightarrow> bool" where
  "all_digits s = (s \<noteq> [] \<and> list_all ascii_digit s)"

text \<open>
  \<open>int(s)\<close> on the strings the decoder passes (digits of \<open>isdigit\<close> and the
  characters \<open>- + . e E M\<close>): an optional sign and decimal digits; \<open>None\<close> is
  \<open>ValueError\<close>. Integers are unbounded.
\<close>

definition py_int :: "string \<Rightarrow> int option" where
  "py_int s =
     (case s of
        [] \<Rightarrow> None
      | ch # r \<Rightarrow>
          if ch = CHR ''-'' then (if all_digits r then Some (- int (digits_val r)) else None)
          else if ch = CHR ''+'' then (if all_digits r then Some (int (digits_val r)) else None)
          else if all_digits s then Some (int (digits_val s)) else None)"

function str_nat :: "nat \<Rightarrow> string" where
  "str_nat n = (if n < 10 then [char_of (48 + n)] else str_nat (n div 10) @ [char_of (48 + n mod 10)])"
  by pat_completeness auto
termination
  by (relation "measure (\<lambda>n. n)") auto

declare str_nat.simps [simp del]

definition str_int :: "int \<Rightarrow> string" where
  "str_int i = (if i < 0 then CHR ''-'' # str_nat (nat (- i)) else str_nat (nat i))"

text \<open>
  The literals \<open>float()\<close> and \<open>Decimal()\<close> accept among those strings: a sign, digits
  with an optional point (at least one digit), and an optional exponent.
\<close>

definition strip_sign :: "string \<Rightarrow> string" where
  "strip_sign s = (case s of [] \<Rightarrow> [] | ch # r \<Rightarrow> if ch = CHR ''-'' \<or> ch = CHR ''+'' then r else s)"

definition is_exp_mark :: "char \<Rightarrow> bool" where
  "is_exp_mark ch = (ch = CHR ''e'' \<or> ch = CHR ''E'')"

definition mantissa_ok :: "string \<Rightarrow> bool" where
  "mantissa_ok m =
     (let ip = takeWhile (\<lambda>ch. ch \<noteq> CHR ''.'') m; rest = dropWhile (\<lambda>ch. ch \<noteq> CHR ''.'') m
      in list_all ascii_digit ip \<and>
         (case rest of [] \<Rightarrow> ip \<noteq> [] | p # fp \<Rightarrow> list_all ascii_digit fp \<and> ip @ fp \<noteq> []))"

definition float_ok :: "string \<Rightarrow> bool" where
  "float_ok s =
     (let b = strip_sign s;
          m = takeWhile (\<lambda>ch. \<not> is_exp_mark ch) b;
          rest = dropWhile (\<lambda>ch. \<not> is_exp_mark ch) b
      in mantissa_ok m \<and> (case rest of [] \<Rightarrow> True | x # ex \<Rightarrow> all_digits (strip_sign ex)))"

text \<open>\<open>number\<close> of \<open>clj.py\<close>.\<close>

definition number :: "string \<Rightarrow> value outcome" where
  "number v =
     (if v \<noteq> [] \<and> last v = CHR ''M'' then
        (if float_ok (butlast v) then Returns (VDecimal (butlast v)) else Raises InvalidOperation)
      else
        (case py_int v of
           Some i \<Rightarrow> Returns (VInt i)
         | None \<Rightarrow> if float_ok v then Returns (VFloat v) else Raises (FloatSyntax v)))"

subsection \<open>\<open>io.StringIO\<close>\<close>

record stringio =
  sio_text :: string
  sio_pos :: nat

definition sio_read :: "nat \<Rightarrow> stringio \<Rightarrow> string \<times> stringio" where
  "sio_read n f =
     (let s = take n (drop (sio_pos f) (sio_text f))
      in (s, f\<lparr>sio_pos := sio_pos f + length s\<rparr>))"

text \<open>\<open>_seek_back\<close>: \<open>fd.seek(fd.tell() - size, 0)\<close>; a negative target raises \<open>ValueError\<close>.\<close>

definition seek_back :: "stringio \<Rightarrow> nat \<Rightarrow> stringio outcome" where
  "seek_back f n =
     (if sio_pos f < n then Raises NegativeSeek else Returns (f\<lparr>sio_pos := sio_pos f - n\<rparr>))"

subsection \<open>\<open>codecs.decode(m, "unicode-escape")\<close> on one escape sequence\<close>

definition is_hex :: "char \<Rightarrow> bool" where
  "is_hex ch =
     (let n = (of_char ch :: nat)
      in (48 \<le> n \<and> n \<le> 57) \<or> (97 \<le> n \<and> n \<le> 102) \<or> (65 \<le> n \<and> n \<le> 70))"

definition hex_val :: "char \<Rightarrow> nat" where
  "hex_val ch =
     (let n = (of_char ch :: nat)
      in if n \<le> 57 then n - 48 else if 97 \<le> n then n - 87 else n - 55)"

definition hex_num :: "string \<Rightarrow> nat" where
  "hex_num s = foldl (\<lambda>a ch. 16 * a + hex_val ch) 0 s"

definition is_octal :: "char \<Rightarrow> bool" where
  "is_octal ch = (48 \<le> (of_char ch :: nat) \<and> (of_char ch :: nat) \<le> 55)"

definition oct_num :: "string \<Rightarrow> nat" where
  "oct_num s = foldl (\<lambda>a ch. 8 * a + digit_val ch) 0 s"

definition single_escapes :: "char list" where
  "single_escapes = [BACKSLASH, CHR 0x27, DQUOTE, CHR ''a'', CHR ''b'', CHR ''f'', CHR ''n'',
     CHR ''r'', CHR ''t'', CHR ''v'']"

definition single_escape :: "char \<Rightarrow> nat" where
  "single_escape k =
     (if k = CHR ''a'' then 7 else if k = CHR ''b'' then 8 else if k = CHR ''f'' then 12
      else if k = CHR ''n'' then 10 else if k = CHR ''r'' then 13 else if k = CHR ''t'' then 9
      else if k = CHR ''v'' then 11 else of_char k)"

text \<open>
  The codec on a text \<open>m\<close> that the pattern \<open>ESCAPE_SEQUENCE_RE\<close> has matched:
  hexadecimal escapes need hexadecimal digits and a code point up to 0x10FFFF,
  a named escape is looked up in the Unicode name table.
\<close>

definition unicode_escape :: "string \<Rightarrow> pystr outcome" where
  "unicode_escape m =
     (case m of
        [] \<Rightarrow> Returns []
      | [b] \<Rightarrow> if b = BACKSLASH then Raises UnicodeDecodeError else Returns [of_char b]
      | b # k # r \<Rightarrow>
          if k = CHR ''U'' \<or> k = CHR ''u'' \<or> k = CHR ''x'' then
            (if list_all is_hex r \<and> hex_num r \<le> 0x10FFFF then Returns [hex_num r]
             else Raises UnicodeDecodeError)
          else if is_octal k then Returns [oct_num (k # r)]
          else if k = CHR ''N'' then External
          else Returns [single_escape k])"

subsection \<open>\<open>json.encoder.py_encode_basestring_ascii\<close>\<close>








section \<open>The escape resolver\<close>

text \<open>The pattern's \<open>.\<close> matches every character but the newline.\<close>

definition dots :: "nat \<Rightarrow> string \<Rightarrow> bool" where
  "dots n s = (n \<le> length s \<and> list_all (\<lambda>ch. ch \<noteq> NEWLINE) (take n s))"

text \<open>\<open>\{[^}]+\}\<close> at the start of \<open>r\<close>: the length of the match.\<close>

definition name_len :: "string \<Rightarrow> nat option" where
  "name_len r =
     (case r of
        [] \<Rightarrow> None
      | ob # t \<Rightarrow>
          (let body = takeWhile (\<lambda>ch. ch \<noteq> CHR 0x7D) t
           in if ob = CHR 0x7B \<and> body \<noteq> [] \<and> length body < length t
              then Some (length body + 2) else None))"

text \<open>
  \<open>ESCAPE_SEQUENCE_RE\<close> at the start of \<open>s\<close>: the length of the match, the
  alternatives tried in the order of the pattern.
\<close>

definition escape_len :: "string \<Rightarrow> nat option" where
  "escape_len s =
     (case s of
        b # k # r \<Rightarrow>
          if b \<noteq> BACKSLASH then None
          else if k = CHR ''U'' \<and> dots 8 r then Some 10
          else if k = CHR ''u'' \<and> dots 4 r then Some 6
          else if k = CHR ''x'' \<and> dots 2 r then Some 4
          else if is_octal k then Some (1 + length (takeWhile is_octal (take 3 (k # r))))
          else if k = CHR ''N'' \<and> name_len r \<noteq> None then map_option (\<lambda>n. 2 + n) (name_len r)
          else if k \<in> set single_escapes then Some 2
          else None
      | _ \<Rightarrow> None)"

lemma escape_len_pos: "escape_len s = Some n \<Longrightarrow> 0 < n"
  by (auto simp: escape_len_def split: list.splits if_splits)

text \<open>
  \<open>_decode_escapes\<close>: \<open>ESCAPE_SEQUENCE_RE.sub(decode_match, s)\<close> replaces the matches
  from left to right and copies the text between them.
\<close>

function decode_escapes :: "string \<Rightarrow> pystr outcome" where
  "decode_escapes [] = Returns []"
| "decode_escapes (c # cs) =
     (case escape_len (c # cs) of
        None \<Rightarrow> obind (decode_escapes cs) (\<lambda>r. Returns (of_char c # r))
      | Some n \<Rightarrow>
          obind (unicode_escape (take n (c # cs)))
            (\<lambda>u. obind (decode_escapes (drop n (c # cs))) (\<lambda>r. Returns (u @ r))))"
  by pat_completeness auto
termination
  by (relation "measure length") (auto dest: escape_len_pos)


section \<open>The decoder\<close>

definition STOP_CHARS :: "string list" where
  "STOP_CHARS = ['' '', '','', [NEWLINE], [CHR 0x0D], [CHR 0x09]]"

definition COLL_OPEN_CHARS :: "string list" where
  "COLL_OPEN_CHARS = [''#'', ''['', [CHR 0x7B], ''('']"

definition COLL_CLOSE_CHARS :: "string list" where
  "COLL_CLOSE_CHARS = ['']'', [CHR 0x7D], '')'']"

definition EXTRA_NUM_CHARS :: "string list" where
  "EXTRA_NUM_CHARS = [''-'', ''+'', ''.'', ''e'', ''E'', ''M'']"

text \<open>The type names \<open>__get_type_from_char\<close> returns.\<close>

datatype ttype = TNumber | TBoolean | TNil | TChar | TKeyword | TString
  | TSet | TNamespacedDict | TDatetime | TUuid | TDict | TList

text \<open>
  A frame of \<open>value_stack\<close>: the members read so far, the terminator, the container
  type and the namespace. The stack is kept top first: \<open>value_stack[-1]\<close> is the head.
\<close>

type_synonym frame = "value list \<times> string option \<times> ttype option \<times> string option"

record decoder =
  fd :: stringio
  cur_line :: nat
  cur_pos :: nat
  value_stack :: "frame list"
  terminator :: "string option"

definition CljDecoder :: "stringio \<Rightarrow> decoder" where
  "CljDecoder f = \<lparr>fd = f, cur_line = 1, cur_pos = 1, value_stack = [], terminator = None\<rparr>"

definition read_and_back :: "nat \<Rightarrow> decoder \<Rightarrow> (string \<times> decoder) outcome" where
  "read_and_back n d =
     (let (s, f) = sio_read n (fd d)
      in obind (seek_back f n) (\<lambda>f'. Returns (s, d\<lparr>fd := f'\<rparr>)))"

definition read_fd :: "nat \<Rightarrow> decoder \<Rightarrow> string \<times> decoder" where
  "read_fd n d =
     (if n = 1 then
        (let (c, f) = sio_read n (fd d)
         in if c = [NEWLINE] then (c, d\<lparr>fd := f, cur_line := cur_line d + 1, cur_pos := 0\<rparr>)
            else (c, d\<lparr>fd := f\<rparr>))
      else
        (let (cs, f) = sio_read n (fd d)
         in (cs, d\<lparr>fd := f, cur_pos := cur_pos d + n\<rparr>)))"

definition get_type_from_char ::
  "string \<Rightarrow> decoder \<Rightarrow> ((ttype option \<times> bool \<times> string option) \<times> decoder) outcome" where
  "get_type_from_char c d =
     (if isdigit c \<or> c = ''-'' then Returns ((Some TNumber, False, None), d)
      else if c = ''t'' \<or> c = ''f'' then Returns ((Some TBoolean, False, None), d)
      else if c = ''n'' then Returns ((Some TNil, False, None), d)
      else if c = [BACKSLASH] then Returns ((Some TChar, False, None), d)
      else if c = '':'' then Returns ((Some TKeyword, False, None), d)
      else if c = [DQUOTE] then Returns ((Some TString, False, None), d)
      else if c = ''#'' then
        obind (read_and_back 1 d) (\<lambda>(s1, d1).
          if s1 = [CHR 0x7B] then Returns ((Some TSet, True, Some [CHR 0x7D]), d1)
          else obind (read_and_back 1 d1) (\<lambda>(s2, d2).
            if s2 = '':'' then Returns ((Some TNamespacedDict, True, Some [CHR 0x7D]), d2)
            else obind (read_and_back 4 d2) (\<lambda>(s3, d3).
              if s3 = ''inst'' then Returns ((Some TDatetime, False, None), d3)
              else obind (read_and_back 4 d3) (\<lambda>(s4, d4).
                if s4 = ''uuid'' then Returns ((Some TUuid, False, None), d4)
                else Returns ((None, False, None), d4)))))
      else if c = [CHR 0x7B] then Returns ((Some TDict, True, Some [CHR 0x7D]), d)
      else if c = ''('' then Returns ((Some TList, True, Some '')''), d)
      else if c = ''['' then Returns ((Some TList, True, Some '']''), d)
      else Returns ((None, False, None), d))"

subsection \<open>The loops of \<open>__read_token\<close> that end with the stream\<close>

definition remaining :: "decoder \<Rightarrow> nat" where
  "remaining d = length (sio_text (fd d)) - sio_pos (fd d)"

text \<open>The text of the stream from the current position on.\<close>

definition unread :: "decoder \<Rightarrow> string" where
  "unread d = drop (sio_pos (fd d)) (sio_text (fd d))"

lemma read_fd_1_cases:
  "read_fd 1 d = (c, d') \<Longrightarrow>
     (c = [] \<and> remaining d' = remaining d) \<or> (c \<noteq> [] \<and> remaining d' < remaining d)"
  by (auto simp: read_fd_def sio_read_def remaining_def Let_def split: if_splits)

lemma read_fd_1_terminator: "read_fd 1 d = (c, d') \<Longrightarrow> terminator d' = terminator d"
  by (auto simp: read_fd_def sio_read_def Let_def split: if_splits)

text \<open>\<open>while c in _STOP_CHARS: c = self.__read_fd(1)\<close>\<close>

function skip_stop :: "string \<times> decoder \<Rightarrow> string \<times> decoder" where
  "skip_stop (c, d) = (if c \<in> set STOP_CHARS then skip_stop (read_fd 1 d) else (c, d))"
  by pat_completeness auto
termination
proof (relation "measure (\<lambda>(c, d). 2 * remaining d + (if c \<in> set STOP_CHARS then 1 else 0))")
  show "wf (measure (\<lambda>(c, d). 2 * remaining d + (if c \<in> set STOP_CHARS then 1 else 0)))"
    by simp
next
  fix c d
  assume "c \<in> set STOP_CHARS"
  obtain c' d' where r: "read_fd 1 d = (c', d')"
    by (cases "read_fd 1 d")
  have "[] \<notin> set STOP_CHARS"
    by (simp add: STOP_CHARS_def)
  with read_fd_1_cases [OF r] \<open>c \<in> set STOP_CHARS\<close> r
  show "(read_fd 1 d, c, d)
      \<in> measure (\<lambda>(c, d). 2 * remaining d + (if c \<in> set STOP_CHARS then 1 else 0))"
    by auto
qed

declare skip_stop.simps [simp del]

text \<open>The loop of the number token: \<open>while c.isdigit() or (c in _EXTRA_NUM_CHARS)\<close>.\<close>

definition num_char :: "string \<Rightarrow> bool" where
  "num_char c = (isdigit c \<or> c \<in> set EXTRA_NUM_CHARS)"

function read_number :: "string list \<times> string \<times> decoder \<Rightarrow> string list \<times> string \<times> decoder" where
  "read_number (buf, c, d) =
     (if num_char c then (case read_fd 1 d of (c', d') \<Rightarrow> read_number (buf @ [c], c', d'))
      else (buf, c, d))"
  by pat_completeness auto
termination
proof (relation "measure (\<lambda>(buf, c, d). 2 * remaining d + (if num_char c then 1 else 0))")
  show "wf (measure (\<lambda>(buf, c, d). 2 * remaining d + (if num_char c then 1 else 0)))"
    by simp
next
  fix buf c d c' d'
  assume "num_char c" and "(c', d') = read_fd 1 d"
  then have r: "read_fd 1 d = (c', d')"
    by simp
  have "\<not> num_char []"
    by (simp add: num_char_def isdigit_def EXTRA_NUM_CHARS_def)
  with read_fd_1_cases [OF r] \<open>num_char c\<close>
  show "((buf @ [c], c', d'), buf, c, d)
      \<in> measure (\<lambda>(buf, c, d). 2 * remaining d + (if num_char c then 1 else 0))"
    by auto
qed

declare read_number.simps [simp del]

text \<open>
  The loop of the character and keyword tokens:
  \<open>while c is not self.terminator and c is not "" and c not in _STOP_CHARS\<close>.
  The identity tests are on strings of at most one character below code point 256,
  which CPython shares, so they are equality tests.
\<close>

definition tok_char :: "string \<Rightarrow> decoder \<Rightarrow> bool" where
  "tok_char c d = (Some c \<noteq> terminator d \<and> c \<noteq> [] \<and> c \<notin> set STOP_CHARS)"

function read_name :: "string list \<times> string \<times> decoder \<Rightarrow> string list \<times> string \<times> decoder" where
  "read_name (buf, c, d) =
     (if tok_char c d then (case read_fd 1 d of (c', d') \<Rightarrow> read_name (buf @ [c'], c', d'))
      else (buf, c, d))"
  by pat_completeness auto
termination
proof (relation "measure (\<lambda>(buf, c, d). 2 * remaining d + (if tok_char c d then 1 else 0))")
  show "wf (measure (\<lambda>(buf, c, d). 2 * remaining d + (if tok_char c d then 1 else 0)))"
    by simp
next
  fix buf c d c' d'
  assume "tok_char c d" and "(c', d') = read_fd 1 d"
  then have r: "read_fd 1 d = (c', d')"
    by simp
  have "\<not> tok_char [] d'"
    by (simp add: tok_char_def)
  with read_fd_1_cases [OF r] \<open>tok_char c d\<close>
  show "((buf @ [c'], c', d'), buf, c, d)
      \<in> measure (\<lambda>(buf, c, d). 2 * remaining d + (if tok_char c d then 1 else 0))"
    by auto
qed

declare read_name.simps [simp del]

subsection \<open>The loops that do not end at the end of the stream\<close>

text \<open>
  At the end of the stream \<open>read\<close> returns the empty string for ever, and these two
  loops never leave: the functions are partial, \<open>None\<close> is a call that does not return.
  The namespace loop: \<open>while c != "{": c = self.__read_fd(1); buf.append(c)\<close>.
\<close>

partial_function (option) read_namespace ::
  "string list \<Rightarrow> string \<Rightarrow> decoder \<Rightarrow> (string list \<times> string \<times> decoder) option" where
  "read_namespace buf c d =
     (if c \<noteq> [CHR 0x7B] then (case read_fd 1 d of (c', d') \<Rightarrow> read_namespace (buf @ [c']) c' d')
      else Some (buf, c, d))"

text \<open>The string loop: \<open>while not (c == '"' and cp != "\\")\<close>.\<close>

partial_function (option) read_string ::
  "string list \<Rightarrow> string \<Rightarrow> string \<Rightarrow> decoder \<Rightarrow> (string list \<times> string \<times> decoder) option" where
  "read_string buf cp c d =
     (if \<not> (c = [DQUOTE] \<and> cp \<noteq> [BACKSLASH])
      then (case read_fd 1 d of (c', d') \<Rightarrow> read_string (buf @ [c]) c c' d')
      else Some (buf, c, d))"

text \<open>
  The text \<open>xs\<close> that is still to be read, after the characters \<open>cp\<close> and \<open>c\<close>,
  holds a double quote that follows a character other than the backslash.
\<close>

fun closes :: "string \<Rightarrow> string \<Rightarrow> string \<Rightarrow> bool" where
  "closes cp c [] = (c = [DQUOTE] \<and> cp \<noteq> [BACKSLASH])"
| "closes cp c (x # xs) = ((c = [DQUOTE] \<and> cp \<noteq> [BACKSLASH]) \<or> closes c [x] xs)"


subsection \<open>Tokens\<close>

text \<open>A token: its value \<open>v\<close>, its end character \<open>e\<close>, the flag \<open>r\<close> and the decoder.\<close>

type_synonym token = "value \<times> string \<times> bool \<times> decoder"

definition tok_boolean :: "string \<Rightarrow> decoder \<Rightarrow> token outcome" where
  "tok_boolean c d =
     (if c = ''t'' then
        (case read_fd 4 d of (chars, d') \<Rightarrow>
           if take 3 chars \<noteq> ''rue''
           then Raises (ExpectTrue (take 3 chars) (cur_line d') (cur_pos d'))
           else Returns (VBool True, [last chars], True, d'))
      else
        (case read_fd 5 d of (chars, d') \<Rightarrow>
           if take 4 chars \<noteq> ''alse''
           then Raises (ExpectTrue (take 3 chars) (cur_line d') (cur_pos d'))
           else Returns (VBool False, [last chars], True, d')))"

definition tok_nil :: "decoder \<Rightarrow> token outcome" where
  "tok_nil d =
     (case read_fd 3 d of (chars, d') \<Rightarrow>
        if take 2 chars \<noteq> ''il''
        then Raises (ExpectNil (take 2 chars) (cur_line d') (cur_pos d'))
        else Returns (VNone, [last chars], True, d'))"

text \<open>The character and the keyword tokens have the same code.\<close>

definition tok_name :: "string \<Rightarrow> decoder \<Rightarrow> token outcome" where
  "tok_name c d =
     (case read_name ([], c, d) of (buf, e, d') \<Rightarrow>
        Returns (VStr (ustr (concat (butlast buf))), e, True, d'))"

definition tok_number :: "string \<Rightarrow> decoder \<Rightarrow> token outcome" where
  "tok_number c d =
     (case read_number ([], c, d) of (buf, e, d') \<Rightarrow>
        obind (number (concat buf)) (\<lambda>v.
          if e \<in> set COLL_OPEN_CHARS
          then obind (seek_back (fd d') 1) (\<lambda>f. Returns (v, e, True, d'\<lparr>fd := f\<rparr>))
          else Returns (v, e, True, d')))"

definition tok_string :: "decoder \<Rightarrow> token outcome option" where
  "tok_string d =
     (case read_fd 1 d of (c, d1) \<Rightarrow>
        Option.bind (read_string [] c c d1) (\<lambda>(buf, e, d').
          Some (obind (decode_escapes (concat buf)) (\<lambda>s. Returns (VStr s, e, True, d')))))"

text \<open>The token of a character that starts no value: only a closing character is allowed.\<close>

definition tok_close :: "string \<Rightarrow> decoder \<Rightarrow> token outcome" where
  "tok_close c d =
     (if c \<notin> set COLL_CLOSE_CHARS then Raises (UnexpectedChar c (cur_line d) (cur_pos d))
      else Returns (VNone, c, False, d))"

text \<open>
  The tagged literals after the recursive call has read \<open>s\<close>: the string is taken off
  the enclosing frame again, and \<open>pyrfc3339.parse(s)\<close> or \<open>uuid.UUID(s)\<close> is called.
\<close>

definition is_str :: "value \<Rightarrow> bool" where
  "is_str v = (case v of VStr s \<Rightarrow> True | VFmt ns x \<Rightarrow> True | _ \<Rightarrow> False)"

definition tagged :: "value \<times> decoder \<Rightarrow> token outcome" where
  "tagged sd =
     (case sd of (s, d) \<Rightarrow>
        if \<not> is_str s then Raises (StrExpected s)
        else
          (case value_stack d of
             [] \<Rightarrow> External
           | (scope, fr) # stk \<Rightarrow> if scope = [] then Raises IndexError else External))"

subsection \<open>Closing a frame\<close>

fun hashable :: "value \<Rightarrow> bool" where
  "hashable (VList xs) = False"
| "hashable (VDict kvs) = False"
| "hashable (VSet xs) = False"
| "hashable (VTuple xs) = list_all hashable xs"
| "hashable v = True"

text \<open>\<open>str(v)\<close> where it is computed here.\<close>

definition py_str :: "value \<Rightarrow> pystr option" where
  "py_str v =
     (case v of
        VStr s \<Rightarrow> Some s
      | VInt i \<Rightarrow> Some (ustr (str_int i))
      | VNone \<Rightarrow> Some (ustr ''None'')
      | VBool b \<Rightarrow> Some (ustr (if b then ''True'' else ''False''))
      | _ \<Rightarrow> None)"

text \<open>\<open>"%s/%s" % (namespace, k)\<close>\<close>

definition ns_key :: "string \<Rightarrow> value \<Rightarrow> value" where
  "ns_key ns k =
     (case py_str k of Some s \<Rightarrow> VStr (ustr ns @ ustr ''/'' @ s) | None \<Rightarrow> VFmt (ustr ns) k)"

text \<open>A namespace that is \<open>None\<close> or empty is false in \<open>if namespace\<close>.\<close>

definition dict_key :: "string option \<Rightarrow> value \<Rightarrow> value" where
  "dict_key namespace k =
     (case namespace of None \<Rightarrow> k | Some ns \<Rightarrow> if ns = [] then k else ns_key ns k)"

text \<open>
  The loop \<open>for i in range(0, len(current_scope), 2)\<close> over the members that are
  left; \<open>v\<close> is the dictionary built so far. A last member without a partner is
  \<open>current_scope[i + 1]\<close> out of range; storing under a key that cannot be hashed
  is a \<open>TypeError\<close>.
\<close>

fun dict_pairs :: "string option \<Rightarrow> value list \<Rightarrow> (value \<times> value) list \<Rightarrow> (value \<times> value) list outcome" where
  "dict_pairs namespace [] v = Returns v"
| "dict_pairs namespace [k] v = Raises IndexError"
| "dict_pairs namespace (k # x # rest) v =
     (if hashable (dict_key namespace k)
      then dict_pairs namespace rest (v @ [(dict_key namespace k, x)])
      else Raises TypeError)"

definition fold_frame :: "value \<Rightarrow> ttype option \<Rightarrow> string option \<Rightarrow> value list \<Rightarrow> value outcome" where
  "fold_frame v container namespace current_scope =
     (if container = Some TSet then
        (if list_all hashable current_scope then Returns (VSet current_scope)
         else Returns (VTuple current_scope))
      else if container = Some TList then Returns (VList current_scope)
      else if container = Some TDict \<or> container = Some TNamespacedDict then
        obind (dict_pairs namespace current_scope []) (\<lambda>kvs. Returns (VDict kvs))
      else Returns v)"

text \<open>The end of \<open>__read_token\<close>, from \<open>if e == self.terminator\<close> on.\<close>

definition close_frame :: "token \<Rightarrow> (value \<times> bool \<times> decoder) outcome" where
  "close_frame tk =
     (case tk of (v, e, r, d) \<Rightarrow>
        if Some e = terminator d then
          (case value_stack d of
             [] \<Rightarrow> Raises IndexError
           | (current_scope, tm, container, namespace) # stk \<Rightarrow>
               obind (fold_frame v container namespace (if r then current_scope @ [v] else current_scope))
                 (\<lambda>v'. Returns (v', True, d\<lparr>value_stack := stk\<rparr>)))
        else Returns (v, r, d))"

definition append_value :: "value \<times> bool \<times> decoder \<Rightarrow> (value \<times> decoder) outcome" where
  "append_value x =
     (case x of (v, r, d) \<Rightarrow>
        (case value_stack d of
           [] \<Rightarrow> Returns (v, d)
         | (current_scope, tm, container, namespace) # stk \<Rightarrow>
             if r then
               Returns (v, d\<lparr>value_stack := (current_scope @ [v], tm, container, namespace) # stk,
                              terminator := tm\<rparr>)
             else Returns (v, d)))"

definition finish_token :: "token outcome \<Rightarrow> (value \<times> decoder) outcome" where
  "finish_token tk = obind tk (\<lambda>t. obind (close_frame t) append_value)"

subsection \<open>\<open>__read_token\<close>, \<open>decode\<close>, \<open>loads\<close>\<close>

definition push_frame :: "ttype option \<Rightarrow> string option \<Rightarrow> string option \<Rightarrow> decoder \<Rightarrow> decoder" where
  "push_frame t tm namespace d =
     d\<lparr>terminator := tm, value_stack := ([], tm, t, namespace) # value_stack d\<rparr>"

definition open_collection ::
  "ttype option \<Rightarrow> string option \<Rightarrow> string \<Rightarrow> decoder \<Rightarrow> (value \<times> decoder) outcome option" where
  "open_collection t tm c d =
     (let d1 = (if t = Some TSet then snd (read_fd 1 d) else d)
      in if t = Some TNamespacedDict then
           Option.bind (read_namespace [] c (snd (read_fd 1 d1))) (\<lambda>(buf, c', d2).
             Some (Returns (VNone, push_frame t tm (Some (concat (butlast buf))) d2)))
         else Some (Returns (VNone, push_frame t tm None d1)))"

partial_function (option) read_token :: "decoder \<Rightarrow> (value \<times> decoder) outcome option" where
  "read_token d0 =
     (case skip_stop (read_fd 1 d0) of (c, d) \<Rightarrow>
        if c = [] then Some (Raises UnexpectedEOF)
        else
          (case get_type_from_char c d of
             Raises x \<Rightarrow> Some (Raises x)
           | External \<Rightarrow> Some External
           | Returns ((t, coll, tm), d1) \<Rightarrow>
               if coll then open_collection t tm c d1
               else if t = Some TBoolean then Some (finish_token (tok_boolean c d1))
               else if t = Some TChar then Some (finish_token (tok_name c d1))
               else if t = Some TNil then Some (finish_token (tok_nil d1))
               else if t = Some TNumber then Some (finish_token (tok_number c d1))
               else if t = Some TKeyword then Some (finish_token (tok_name c d1))
               else if t = Some TString then map_option finish_token (tok_string d1)
               else if t = Some TDatetime \<or> t = Some TUuid then
                 Option.bind (read_token (snd (read_fd 4 d1)))
                   (\<lambda>res. Some (finish_token (obind res tagged)))
               else Some (finish_token (tok_close c d1))))"

text \<open>\<open>decode\<close>: tokens are read until the stack is empty.\<close>

partial_function (option) decode :: "decoder \<Rightarrow> value outcome option" where
  "decode d =
     Option.bind (read_token d) (\<lambda>res.
       case res of
         Raises x \<Rightarrow> Some (Raises x)
       | External \<Rightarrow> Some External
       | Returns (v, d') \<Rightarrow> if value_stack d' = [] then Some (Returns v) else decode d')"

text \<open>\<open>load\<close> on a \<open>StringIO\<close>, as \<open>loads\<close> calls it.\<close>

definition load :: "stringio \<Rightarrow> value outcome option" where
  "load fp = decode (CljDecoder fp)"

definition loads :: "string \<Rightarrow> value outcome option" where
  "loads s = load \<lparr>sio_text = s, sio_pos = 0\<rparr>"

section \<open>The encoder\<close>

text \<open>
  The objects the encoder is given. A collection is a reference into a heap, its
  address being its \<open>id()\<close>: two references are the same object when the addresses
  are equal. A float, a decimal, a UUID and an object of any other class are known
  by their \<open>str()\<close>, a datetime by the text \<open>pyrfc3339.generate\<close> gives for it
  (taken as UTC when it has no time zone): the encoder looks at nothing else.
\<close>

datatype pyobj =
    ONone
  | OStr pystr
  | OBool bool
  | OInt int
  | OFloat string
  | ODecimal string
  | ODatetime string
  | OUuid string
  | OOther pystr
  | ORef nat

text \<open>A \<open>dict\<close> with its items, a \<open>list\<close> or \<open>tuple\<close>, a \<open>set\<close> in the order of iteration.\<close>

datatype container =
    CDict "(pyobj \<times> pyobj) list"
  | CList "pyobj list"
  | CSet "pyobj list"








text \<open>\<open>StringIO.write\<close> overwrites from the current position.\<close>

definition sio_write :: "string \<Rightarrow> stringio \<Rightarrow> stringio" where
  "sio_write s f =
     f\<lparr>sio_text := take (sio_pos f) (sio_text f) @ replicate (sio_pos f - length (sio_text f)) (CHR 0x00)
          @ s @ drop (sio_pos f + length s) (sio_text f),
       sio_pos := sio_pos f + length s\<rparr>"

record encoder =
  enc_fd :: stringio
  circular :: "nat \<rightharpoonup> bool"


definition fd_write :: "string \<Rightarrow> encoder \<Rightarrow> encoder" where
  "fd_write s e = e\<lparr>enc_fd := sio_write s (enc_fd e)\<rparr>"








section \<open>Decoding what was encoded\<close>



section \<open>Evaluation\<close>

lemmas library_defs =
  ustr_def BACKSLASH_def DQUOTE_def NEWLINE_def obind_def ascii_digit_def char_isdigit_def
  isdigit_def digit_val_def digits_val_def all_digits_def py_int_def str_int_def strip_sign_def
  is_exp_mark_def mantissa_ok_def float_ok_def number_def sio_read_def seek_back_def
  is_hex_def hex_val_def hex_num_def is_octal_def oct_num_def single_escapes_def
  single_escape_def unicode_escape_def dots_def name_len_def escape_len_def Let_def

lemmas decoder_defs =
  STOP_CHARS_def COLL_OPEN_CHARS_def COLL_CLOSE_CHARS_def EXTRA_NUM_CHARS_def CljDecoder_def
  read_and_back_def read_fd_def get_type_from_char_def skip_stop.simps num_char_def
  read_number.simps tok_char_def read_name.simps read_namespace.simps read_string.simps
  tok_boolean_def tok_nil_def tok_name_def tok_number_def tok_string_def tok_close_def
  is_str_def tagged_def py_str_def ns_key_def dict_key_def fold_frame_def close_frame_def
  append_value_def finish_token_def push_frame_def open_collection_def read_token.simps
  decode.simps load_def loads_def


section \<open>Frames and mismatched closing characters\<close>







section \<open>Folding a frame\<close>





text \<open>
  C7. Closing a set frame never fails: members that cannot all be hashed give the
  sequence of the members (a tuple) instead of a set; members that can be hashed give
  the set of the members.
\<close>

theorem set_frame_degrades_to_sequence:
  assumes "terminator d = Some e"
    and "value_stack d = (scope, tm, Some TSet, namespace) # stk"
    and "members = (if r then scope @ [v] else scope)"
  shows "close_frame (v, e, r, d) =
           Returns (if list_all hashable members then VSet members else VTuple members,
                    True, d\<lparr>value_stack := stk\<rparr>)
       \<and> loads ''#{[1] 2}'' = Some (Returns (VTuple [VList [VInt 1], VInt 2]))
       \<and> loads ''#{1 2 3}'' = Some (Returns (VSet [VInt 1, VInt 2, VInt 3]))"
proof -
  have ex1: "loads ''#{[1] 2}'' = Some (Returns (VTuple [VList [VInt 1], VInt 2]))"
    by (simp add: library_defs decoder_defs)
  have ex2: "loads ''#{1 2 3}'' = Some (Returns (VSet [VInt 1, VInt 2, VInt 3]))"
    by (simp add: library_defs decoder_defs)
  from assms have "close_frame (v, e, r, d) =
           Returns (if list_all hashable members then VSet members else VTuple members,
                    True, d\<lparr>value_stack := stk\<rparr>)"
    by (simp add: close_frame_def fold_frame_def obind_def)
  with ex1 ex2 show ?thesis by simp
qed

theorem set_frame_degrades_to_sequence_witness:
  "close_frame (VInt 2, ''}'', True,
       \<lparr>fd = \<lparr>sio_text = ''#{[1] 2}'', sio_pos = 8\<rparr>, cur_line = 1, cur_pos = 1,
        value_stack = [([VList [VInt 1]], Some ''}'', Some TSet, None)], terminator = Some ''}''\<rparr>)
   = Returns (VTuple [VList [VInt 1], VInt 2], True,
       \<lparr>fd = \<lparr>sio_text = ''#{[1] 2}'', sio_pos = 8\<rparr>, cur_line = 1, cur_pos = 1,
        value_stack = [], terminator = Some ''}''\<rparr>)"
  using set_frame_degrades_to_sequence [of
       "\<lparr>fd = \<lparr>sio_text = ''#{[1] 2}'', sio_pos = 8\<rparr>, cur_line = 1, cur_pos = 1,
        value_stack = [([VList [VInt 1]], Some ''}'', Some TSet, None)], terminator = Some ''}''\<rparr>"
       "''}''" "[VList [VInt 1]]" "Some ''}''" None "[]" "[VList [VInt 1], VInt 2]" True "VInt 2"]
  by simp
section \<open>Map keys\<close>

lemma dict_pairs_keys:
  "dict_pairs namespace scope acc = Returns kvs \<Longrightarrow>
     \<exists>new. kvs = acc @ new \<and> length scope = 2 * length new
       \<and> (\<forall>i < length new. new ! i = (dict_key namespace (scope ! (2 * i)), scope ! (2 * i + 1)))"
proof (induction namespace scope acc rule: dict_pairs.induct)
  case (1 namespace v)
  then show ?case by simp
next
  case (2 namespace k v)
  then show ?case by simp
next
  case (3 namespace k x rest v)
  from "3.prems" have h: "hashable (dict_key namespace k)"
    and r: "dict_pairs namespace rest (v @ [(dict_key namespace k, x)]) = Returns kvs"
    by (auto split: if_splits)
  from "3.IH" [OF h r] obtain new where
    n: "kvs = (v @ [(dict_key namespace k, x)]) @ new" "length rest = 2 * length new"
      "\<forall>i < length new. new ! i = (dict_key namespace (rest ! (2 * i)), rest ! (2 * i + 1))"
    by blast
  let ?new = "(dict_key namespace k, x) # new"
  have "\<forall>i < length ?new. ?new ! i = (dict_key namespace ((k # x # rest) ! (2 * i)), (k # x # rest) ! (2 * i + 1))"
  proof (intro allI impI)
    fix i assume "i < length ?new"
    then show "?new ! i = (dict_key namespace ((k # x # rest) ! (2 * i)), (k # x # rest) ! (2 * i + 1))"
      using n(3) by (cases i) auto
  qed
  with n(1,2) show ?case
    by (intro exI [of _ ?new]) simp
qed

lemma is_str_ns_key: "is_str (ns_key ns k)"
  by (simp add: ns_key_def is_str_def split: option.splits)

text \<open>
  C5. The specification says: every key of every decoded mapping is a string. The keys of a plain
  map are the members as they were decoded: \<open>{1 2}\<close> is the mapping of the integer 1
  to 2.
\<close>

theorem map_keys_counterexample:
  "loads ''{1 2}'' = Some (Returns (VDict [(VInt 1, VInt 2)])) \<and> \<not> is_str (VInt 1)"
  by (simp add: library_defs decoder_defs is_str_def)

text \<open>
  C5, as the code has it: the members of a map frame are paired in order, each key
  being the member itself in a plain map (or when the namespace is empty), and in a
  namespaced map with a non-empty namespace the string made of the namespace, \<open>/\<close>
  and the text of the member, so that there every key is a string.
\<close>

theorem map_keys:
  assumes "fold_frame v container namespace scope = Returns x"
    and "container = Some TDict \<or> container = Some TNamespacedDict"
  shows "\<exists>kvs. x = VDict kvs \<and> length scope = 2 * length kvs
         \<and> (\<forall>i < length kvs.
               kvs ! i = (dict_key namespace (scope ! (2 * i)), scope ! (2 * i + 1)))
         \<and> (\<forall>ns. namespace = Some ns \<and> ns \<noteq> [] \<longrightarrow>
               (\<forall>i < length kvs.
                  fst (kvs ! i) = ns_key ns (scope ! (2 * i)) \<and> is_str (fst (kvs ! i))))
         \<and> dict_key None k = k \<and> dict_key (Some []) k = k
         \<and> ns_key ns' (VStr s) = VStr (ustr ns' @ ustr ''/'' @ s)
         \<and> loads ''#:ns{:a 1}'' = Some (Returns (VDict [(VStr (ustr ''ns/a''), VInt 1)]))"
proof -
  have ex: "loads ''#:ns{:a 1}'' = Some (Returns (VDict [(VStr (ustr ''ns/a''), VInt 1)]))"
    by (simp add: library_defs decoder_defs)
  have k: "ns_key ns' (VStr s) = VStr (ustr ns' @ ustr ''/'' @ s)"
    by (simp add: ns_key_def py_str_def)
  have dk: "dict_key None k = k \<and> dict_key (Some []) k = k"
    by (simp add: dict_key_def)
  from assms obtain kvs where x: "x = VDict kvs"
    and dp: "dict_pairs namespace scope [] = Returns kvs"
    by (auto simp: fold_frame_def obind_def split: outcome.splits)
  from dict_pairs_keys [OF dp]
  have a: "length scope = 2 * length kvs"
    and b: "\<forall>i < length kvs.
               kvs ! i = (dict_key namespace (scope ! (2 * i)), scope ! (2 * i + 1))"
    by auto
  from b have c: "\<forall>ns. namespace = Some ns \<and> ns \<noteq> [] \<longrightarrow>
               (\<forall>i < length kvs.
                  fst (kvs ! i) = ns_key ns (scope ! (2 * i)) \<and> is_str (fst (kvs ! i)))"
    by (auto simp: dict_key_def is_str_ns_key)
  from x a b c dk k ex show ?thesis by blast
qed

theorem map_keys_witness:
  "fold_frame VNone (Some TNamespacedDict) (Some ''ns'') [VStr (ustr ''a''), VInt 1]
     = Returns (VDict [(VStr (ustr ''ns/a''), VInt 1)])"
proof -
  have a: "fold_frame VNone (Some TNamespacedDict) (Some ''ns'') [VStr (ustr ''a''), VInt 1]
     = Returns (VDict [(ns_key ''ns'' (VStr (ustr ''a'')), VInt 1)])"
    by (simp add: fold_frame_def dict_key_def obind_def ns_key_def py_str_def)
  have b: "Some TNamespacedDict = Some TDict \<or> Some TNamespacedDict = Some TNamespacedDict"
    by simp
  from map_keys [OF a b, of VNone "''ns''" "ustr ''a''"] a show ?thesis
    by (simp add: ustr_def ns_key_def py_str_def)
qed

section \<open>Character and keyword tokens\<close>

lemma sio_read_1_unread:
  "drop (p + min (length t - p) (Suc 0)) t = drop (Suc p) t"
  by (cases "p < length t") (auto simp: min_def)

lemma read_fd_1_unread:
  assumes "read_fd 1 d = (c, d')"
  shows "c = take 1 (unread d)" and "unread d' = drop 1 (unread d)"
    and "terminator d' = terminator d" and "value_stack d' = value_stack d"
proof -
  from assms show "c = take 1 (unread d)"
    by (auto simp: read_fd_def sio_read_def unread_def Let_def split: if_splits)
  from assms show "unread d' = drop 1 (unread d)"
    by (auto simp: read_fd_def sio_read_def unread_def Let_def sio_read_1_unread split: if_splits)
  from assms show "terminator d' = terminator d" and "value_stack d' = value_stack d"
    by (auto simp: read_fd_def sio_read_def Let_def split: if_splits)
qed

lemma tok_char_terminator: "terminator d' = terminator d \<Longrightarrow> tok_char c d' = tok_char c d"
  by (simp add: tok_char_def)

lemma read_name_spec:
  assumes "tok_char c d"
  shows "\<exists>d'. read_name (buf, c, d) =
           (buf @ map (\<lambda>ch. [ch]) (takeWhile (\<lambda>ch. tok_char [ch] d) (unread d))
               @ [take 1 (dropWhile (\<lambda>ch. tok_char [ch] d) (unread d))],
            take 1 (dropWhile (\<lambda>ch. tok_char [ch] d) (unread d)), d')
         \<and>  unread d' = drop 1 (dropWhile (\<lambda>ch. tok_char [ch] d) (unread d))
         \<and> terminator d' = terminator d \<and> value_stack d' = value_stack d"
  using assms
proof (induction "unread d" arbitrary: buf c d)
  case Nil
  obtain c' d' where r: "read_fd 1 d = (c', d')" by (cases "read_fd 1 d")
  from read_fd_1_unread [OF r] Nil(1) [symmetric]
  have c': "c' = []" and p: "unread d' = []" "terminator d' = terminator d" "value_stack d' = value_stack d"
    by simp_all
  have "read_name (buf, c, d) = read_name (buf @ [[]], [], d')"
    using Nil(2) r c' by (subst read_name.simps) simp
  also have "\<dots> = (buf @ [[]], [], d')"
    by (subst read_name.simps) (simp add: tok_char_def)
  finally show ?case using Nil(1) [symmetric] p by simp
next
  case (Cons x xs)
  obtain c' d' where r: "read_fd 1 d = (c', d')" by (cases "read_fd 1 d")
  from read_fd_1_unread [OF r] Cons(2) [symmetric]
  have c': "c' = [x]" and p: "unread d' = xs" "terminator d' = terminator d" "value_stack d' = value_stack d"
    by simp_all
  have step: "read_name (buf, c, d) = read_name (buf @ [[x]], [x], d')"
    using Cons(3) r c' by (subst read_name.simps) simp
  have same: "(\<lambda>ch. tok_char [ch] d') = (\<lambda>ch. tok_char [ch] d)"
    using p(2) by (simp add: tok_char_def)
  show ?case
  proof (cases "tok_char [x] d")
    case True
    then have t: "tok_char [x] d'" using p(2) by (simp add: tok_char_def)
    from Cons(1) [OF p(1) [symmetric] t, of "buf @ [[x]]"] obtain d'' where
      "read_name (buf @ [[x]], [x], d') =
           ((buf @ [[x]]) @ map (\<lambda>ch. [ch]) (takeWhile (\<lambda>ch. tok_char [ch] d') (unread d'))
               @ [take 1 (dropWhile (\<lambda>ch. tok_char [ch] d') (unread d'))],
            take 1 (dropWhile (\<lambda>ch. tok_char [ch] d') (unread d')), d'')
         \<and>  unread d'' = drop 1 (dropWhile (\<lambda>ch. tok_char [ch] d') (unread d'))
         \<and> terminator d'' = terminator d' \<and> value_stack d'' = value_stack d'"
      by blast
    with step same p True Cons(2) [symmetric] show ?thesis
      by (intro exI [of _ d'']) simp
  next
    case False
    then have "\<not> tok_char [x] d'" using p(2) by (simp add: tok_char_def)
    then have "read_name (buf @ [[x]], [x], d') = (buf @ [[x]], [x], d')"
      by (subst read_name.simps) simp
    with step p False Cons(2) [symmetric] show ?thesis
      by (intro exI [of _ d']) simp
  qed
qed

text \<open>
  C8. The specification says: the result of a character literal is a single code point. The text
  \<open>\ab\<close> decodes to the string of the two code points of \<open>ab\<close>.
\<close>

theorem char_token_counterexample:
  "loads (BACKSLASH # ''ab'') = Some (Returns (VStr (ustr ''ab''))) \<and> length (ustr ''ab'') = 2"
  by (simp add: library_defs decoder_defs)

text \<open>
  C8, as the code has it: the result of a character literal is the string of all the
  characters between the backslash and the first character that is a stop character
  or the active terminator, or the end of the stream: as many code points as were
  written there.
\<close>

theorem char_token_value:
  assumes "terminator d \<noteq> Some [BACKSLASH]"
    and "name = takeWhile (\<lambda>ch. tok_char [ch] d) (unread d)"
  shows "\<exists>e d'. tok_name [BACKSLASH] d = Returns (VStr (ustr name), e, True, d')
           \<and> e = take 1 (drop (length name) (unread d))
           \<and> \<not> tok_char e d
           \<and> length (ustr name) = length name"
proof -
  have t: "tok_char [BACKSLASH] d"
    using assms(1) by (auto simp: tok_char_def STOP_CHARS_def BACKSLASH_def NEWLINE_def)
  let ?P = "\<lambda>ch. tok_char [ch] d"
  from read_name_spec [OF t, of "[]"] obtain d' where
    rn: "read_name ([], [BACKSLASH], d) =
           (map (\<lambda>ch. [ch]) (takeWhile ?P (unread d)) @ [take 1 (dropWhile ?P (unread d))],
            take 1 (dropWhile ?P (unread d)), d')"
    by auto
  have cc: "concat (map (\<lambda>ch. [ch]) xs) = xs" for xs :: string
    by (induction xs) auto
  have dw: "dropWhile ?P (unread d) = drop (length name) (unread d)"
    unfolding assms(2) by (simp add: dropWhile_eq_drop)
  have ne: "\<not> tok_char (take 1 (dropWhile ?P (unread d))) d"
  proof (cases "dropWhile ?P (unread d)")
    case Nil
    then show ?thesis by (simp add: tok_char_def)
  next
    case (Cons y ys)
    then have "\<not> ?P y" by (metis hd_dropWhile list.sel(1) list.distinct(1))
    with Cons show ?thesis by simp
  qed
  from rn have "tok_name [BACKSLASH] d =
      Returns (VStr (ustr name), take 1 (dropWhile ?P (unread d)), True, d')"
    by (simp add: tok_name_def cc assms(2))
  with dw ne show ?thesis by (simp add: ustr_def)
qed

theorem char_token_value_witness:
  "\<exists>d'. tok_name [BACKSLASH]
       \<lparr>fd = \<lparr>sio_text = BACKSLASH # ''ab c'', sio_pos = 1\<rparr>, cur_line = 1, cur_pos = 1,
        value_stack = [], terminator = None\<rparr>
     = Returns (VStr (ustr ''ab''), '' '', True, d')"
proof -
  let ?s = "\<lparr>fd = \<lparr>sio_text = BACKSLASH # ''ab c'', sio_pos = 1\<rparr>, cur_line = 1, cur_pos = 1,
        value_stack = [], terminator = None\<rparr>"
  have a: "terminator ?s \<noteq> Some [BACKSLASH]"
    by simp
  have b: "''ab'' = takeWhile (\<lambda>ch. tok_char [ch] ?s) (unread ?s)"
    by (simp add: unread_def tok_char_def STOP_CHARS_def NEWLINE_def)
  from char_token_value [OF a b] show ?thesis
    by (auto simp: unread_def)
qed

section \<open>Errors of the decoder\<close>

text \<open>
  C3. The specification says: every failure of a decode carries the current line and column, the
  unexpected end of the input included. The message of that failure is the constant
  \<open>Unexpected EOF\<close>.
\<close>

theorem unexpected_eof_counterexample:
  "loads ''[1 2'' = Some (Raises UnexpectedEOF) \<and> err_position UnexpectedEOF = None"
  by (simp add: library_defs decoder_defs)

text \<open>
  C3, as the code has it: the failures raised for a misspelled \<open>true\<close>, \<open>false\<close> or
  \<open>nil\<close> and for a character that starts no value carry the line and column counters
  of the decoder; the failure raised at the end of the stream carries neither.
\<close>

theorem decode_error_positions:
  "(skip_stop (read_fd 1 d0) = ([], d) \<longrightarrow>
      read_token d0 = Some (Raises UnexpectedEOF) \<and> err_position UnexpectedEOF = None)
   \<and> (tok_boolean c d = Raises x \<longrightarrow>
      is_ValueError x \<and>
      err_position x = Some (cur_line d, cur_pos d + (if c = ''t'' then 4 else 5)))
   \<and> (tok_nil d = Raises y \<longrightarrow>
      is_ValueError y \<and> err_position y = Some (cur_line d, cur_pos d + 3))
   \<and> (tok_close c d = Raises z \<longrightarrow>
      is_ValueError z \<and> err_position z = Some (cur_line d, cur_pos d))"
proof -
  have a: "skip_stop (read_fd 1 d0) = ([], d) \<longrightarrow>
      read_token d0 = Some (Raises UnexpectedEOF) \<and> err_position UnexpectedEOF = None"
    by (subst read_token.simps) simp
  have b: "tok_boolean c d = Raises x \<longrightarrow>
      is_ValueError x \<and>
      err_position x = Some (cur_line d, cur_pos d + (if c = ''t'' then 4 else 5))"
    by (auto simp: tok_boolean_def read_fd_def sio_read_def Let_def split: if_splits)
  have c: "tok_nil d = Raises y \<longrightarrow>
      is_ValueError y \<and> err_position y = Some (cur_line d, cur_pos d + 3)"
    by (auto simp: tok_nil_def read_fd_def sio_read_def Let_def split: if_splits)
  have e: "tok_close c d = Raises z \<longrightarrow>
      is_ValueError z \<and> err_position z = Some (cur_line d, cur_pos d)"
    by (auto simp: tok_close_def split: if_splits)
  from a b c e show ?thesis by blast
qed

theorem decode_error_positions_witness:
  "read_token \<lparr>fd = \<lparr>sio_text = ''[1 2'', sio_pos = 4\<rparr>, cur_line = 1, cur_pos = 1,
       value_stack = [([VInt 1, VInt 2], Some '']'', Some TList, None)], terminator = Some '']''\<rparr>
     = Some (Raises UnexpectedEOF)
   \<and> tok_boolean ''t'' \<lparr>fd = \<lparr>sio_text = ''truX'', sio_pos = 1\<rparr>, cur_line = 1, cur_pos = 1,
       value_stack = [], terminator = None\<rparr> = Raises (ExpectTrue ''ruX'' 1 5)
   \<and> err_position (ExpectTrue ''ruX'' 1 5) = Some (1, 5)
   \<and> tok_nil \<lparr>fd = \<lparr>sio_text = ''nul'', sio_pos = 1\<rparr>, cur_line = 1, cur_pos = 1,
       value_stack = [], terminator = None\<rparr> = Raises (ExpectNil ''ul'' 1 4)
   \<and> err_position (ExpectNil ''ul'' 1 4) = Some (1, 4)
   \<and> tok_close ''x'' \<lparr>fd = \<lparr>sio_text = ''x'', sio_pos = 1\<rparr>, cur_line = 1, cur_pos = 1,
       value_stack = [], terminator = None\<rparr> = Raises (UnexpectedChar ''x'' 1 1)
   \<and> err_position (UnexpectedChar ''x'' 1 1) = Some (1, 1)"
proof -
  let ?s = "\<lparr>fd = \<lparr>sio_text = ''[1 2'', sio_pos = 4\<rparr>, cur_line = 1, cur_pos = 1,
       value_stack = [([VInt 1, VInt 2], Some '']'', Some TList, None)], terminator = Some '']''\<rparr>"
  let ?t = "\<lparr>fd = \<lparr>sio_text = ''truX'', sio_pos = 1\<rparr>, cur_line = 1, cur_pos = 1,
       value_stack = [], terminator = None\<rparr>"
  let ?n = "\<lparr>fd = \<lparr>sio_text = ''nul'', sio_pos = 1\<rparr>, cur_line = 1, cur_pos = 1,
       value_stack = [], terminator = None\<rparr>"
  let ?u = "\<lparr>fd = \<lparr>sio_text = ''x'', sio_pos = 1\<rparr>, cur_line = 1, cur_pos = 1,
       value_stack = [], terminator = None\<rparr>"
  have a: "skip_stop (read_fd 1 ?s) = ([], ?s)"
    by (simp add: library_defs decoder_defs)
  have b: "tok_boolean ''t'' ?t = Raises (ExpectTrue ''ruX'' 1 5)"
    by (simp add: library_defs decoder_defs)
  have c: "tok_nil ?n = Raises (ExpectNil ''ul'' 1 4)"
    by (simp add: library_defs decoder_defs)
  have e: "tok_close ''x'' ?u = Raises (UnexpectedChar ''x'' 1 1)"
    by (simp add: library_defs decoder_defs)
  from decode_error_positions [of ?s ?s] a
  have 1: "read_token ?s = Some (Raises UnexpectedEOF)" by blast
  from decode_error_positions [of ?t ?t "''t''" "ExpectTrue ''ruX'' 1 5"] b
  have 2: "err_position (ExpectTrue ''ruX'' 1 5)
      = Some (cur_line ?t, cur_pos ?t + (if ''t'' = ''t'' then 4 else 5))" by blast
  from decode_error_positions [of ?n ?n "''t''" _ "ExpectNil ''ul'' 1 4"] c
  have 3: "err_position (ExpectNil ''ul'' 1 4) = Some (cur_line ?n, cur_pos ?n + 3)" by blast
  from decode_error_positions [of ?u ?u "''x''" _ _ "UnexpectedChar ''x'' 1 1"] e
  have 4: "err_position (UnexpectedChar ''x'' 1 1) = Some (cur_line ?u, cur_pos ?u)" by blast
  from 1 2 3 4 b c e show ?thesis by simp
qed

section \<open>String tokens\<close>

text \<open>The string loop returns only when it meets such a double quote.\<close>

lemma read_string_closes:
  assumes "read_string buf cp c d = Some y"
  shows "closes cp c (unread d)"
proof (rule read_string.raw_induct [where P = "\<lambda>buf cp c d y. closes cp c (unread d)", OF _ assms])
  fix f and buf :: "string list" and cp c :: string and d :: decoder
    and y :: "string list \<times> string \<times> decoder"
  assume IH: "\<And>buf cp c d y. f buf cp c d = Some y \<Longrightarrow> closes cp c (unread d)"
    and body: "(if \<not> (c = [DQUOTE] \<and> cp \<noteq> [BACKSLASH])
      then case read_fd 1 d of (c', d') \<Rightarrow> f (buf @ [c]) c c' d'
      else Some (buf, c, d)) = Some y"
  show "closes cp c (unread d)"
  proof (cases "c = [DQUOTE] \<and> cp \<noteq> [BACKSLASH]")
    case True
    then show ?thesis by (cases "unread d") auto
  next
    case False
    obtain c' d' where r: "read_fd 1 d = (c', d')" by (cases "read_fd 1 d")
    with False body have "f (buf @ [c]) c c' d' = Some y" by auto
    from IH [OF this] have cl: "closes c c' (unread d')" .
    from read_fd_1_unread [OF r] have c': "c' = take 1 (unread d)" and u: "unread d' = drop 1 (unread d)"
      by simp_all
    show ?thesis
    proof (cases "unread d")
      case Nil
      with cl c' u False show ?thesis by simp
    next
      case (Cons x xs)
      with cl c' u show ?thesis by simp
    qed
  qed
qed

lemma read_string_diverges:
  "\<not> closes cp c (unread d) \<Longrightarrow> read_string buf cp c d = None"
  using read_string_closes [of buf cp c d] by (cases "read_string buf cp c d") auto

text \<open>
  C6. The specification says: a string literal ends at a double quote that follows an even run of
  backslashes. The loop looks at one character before the quote only. In the text
  \<open>"a\\" "\<close> the quote after the two backslashes does not end the string, which
  becomes the four characters \<open>a\" \<close>; on the text \<open>"a\\"\<close> the loop reads past
  the closing quote to the end of the stream and never returns.
\<close>

theorem string_even_backslashes:
  "loads [DQUOTE, CHR ''a'', BACKSLASH, BACKSLASH, DQUOTE, CHR '' '', DQUOTE]
     = Some (Returns (VStr (ustr [CHR ''a'', BACKSLASH, DQUOTE, CHR '' ''])))
   \<and> loads [DQUOTE, CHR ''a'', BACKSLASH, BACKSLASH, DQUOTE] = None"
proof -
  have a: "loads [DQUOTE, CHR ''a'', BACKSLASH, BACKSLASH, DQUOTE, CHR '' '', DQUOTE]
     = Some (Returns (VStr (ustr [CHR ''a'', BACKSLASH, DQUOTE, CHR '' ''])))"
    by (simp add: library_defs decoder_defs)
  have b: "loads [DQUOTE, CHR ''a'', BACKSLASH, BACKSLASH, DQUOTE] = None"
    by (simp add: library_defs decoder_defs read_string_diverges unread_def del: read_string.simps)
  from a b show ?thesis by simp
qed

section \<open>The escape resolver: properties\<close>

















section \<open>The encoder: properties\<close>

lemma fd_write_simps [simp]:
  "circular (fd_write s e) = circular e"
  "sio_pos (enc_fd (fd_write s e)) = sio_pos (enc_fd e) + length s"
  by (simp_all add: fd_write_def sio_write_def)













section \<open>Encoding and decoding again\<close>

subsection \<open>Numbers\<close>













subsection \<open>Strings\<close>






















subsection \<open>Scalars\<close>






end
